theory Spec2Isabelle
  imports Complex_Main
begin

section \<open>Review analytics: a shallow embedding of the Python sources\<close>

text \<open>
  The development follows the sources file by file: \<^verbatim>\<open>advanced_insights.py\<close>
  (sentiment attachment, sentiment metrics, keyword buckets, the sunburst
  hierarchy and the insight rules), \<^verbatim>\<open>data_processing.py\<close> (text cleaning and
  the loader of raw review files), \<^verbatim>\<open>metrics_visualization.py\<close> (rating
  metrics) and the \<^verbatim>\<open>/process\<close> endpoint of \<^verbatim>\<open>api_main.py\<close>.

  A finite float is the rational number it denotes, and float arithmetic
  rounds the exact result to the nearest binary64 number.
\<close>

subsection \<open>Insight rules (\<^verbatim>\<open>generate_insights\<close>)\<close>

text \<open>
  The keyword buckets are a dictionary from a sentiment label to a ranked list
  of (keyword, score) pairs.
\<close>

type_synonym keyword_dict = "string \<rightharpoonup> (string \<times> rat) list"

text \<open>\<^verbatim>\<open>d.get(k, default)\<close>\<close>

definition dict_get :: "('k \<rightharpoonup> 'v) \<Rightarrow> 'k \<Rightarrow> 'v \<Rightarrow> 'v" where
  "dict_get d k dflt = (case d k of None \<Rightarrow> dflt | Some v \<Rightarrow> v)"

text \<open>\<^verbatim>\<open>any(k in neg_keywords for k in triggers)\<close>\<close>

definition any_in :: "string list \<Rightarrow> string list \<Rightarrow> bool" where
  "any_in neg_keywords triggers = list_ex (\<lambda>k. k \<in> set neg_keywords) triggers"

definition msg_pricing :: string where
  "msg_pricing = ''Pricing concerns detected. Consider revisiting subscription plans or offering trials.''"

definition msg_stability :: string where
  "msg_stability = ''Users report stability issues. Prioritize bug fixes and QA.''"

definition msg_login :: string where
  "msg_login = ''Login or account issues prevalent. Simplify authentication flow.''"

definition msg_ads :: string where
  "msg_ads = ''Negative sentiment around ads. Evaluate frequency and placement of advertisements.''"

definition msg_performance :: string where
  "msg_performance = ''Performance issues noted. Optimize app speed and responsiveness.''"

definition msg_streaming :: string where
  "msg_streaming = ''Users compare the app with YouTube/other streaming platforms and question the subscription's value. Clearly communicate unique offerings, consider content diversification, and evaluate pricing tiers.''"

definition msg_fallback :: string where
  "msg_fallback = ''Sentiment analysis did not highlight specific dominant issues. Continue monitoring.''"

text \<open>The negative keywords the rules look at: the first 50, scores dropped.\<close>

definition neg_keywords_of :: "keyword_dict \<Rightarrow> string list" where
  "neg_keywords_of kws = map fst (take 50 (dict_get kws ''negative'' []))"

text \<open>
  The chain of \<^verbatim>\<open>if any(...): insights.append(...)\<close> statements, each one
  appending to the list built so far, and the final \<^verbatim>\<open>if not insights\<close>.
\<close>

definition generate_insights :: "keyword_dict \<Rightarrow> string list" where
  "generate_insights kws =
    (let insights = [];
         neg_keywords = neg_keywords_of kws;
         insights = (if any_in neg_keywords [''price'', ''subscription'', ''pay'']
                     then insights @ [msg_pricing] else insights);
         insights = (if any_in neg_keywords [''bug'', ''crash'', ''error'', ''issue'']
                     then insights @ [msg_stability] else insights);
         insights = (if any_in neg_keywords [''login'', ''account'', ''sign'']
                     then insights @ [msg_login] else insights);
         insights = (if any_in neg_keywords [''ads'', ''advert'']
                     then insights @ [msg_ads] else insights);
         insights = (if any_in neg_keywords [''slow'', ''lag'', ''performance'']
                     then insights @ [msg_performance] else insights);
         insights = (if any_in neg_keywords [''youtube'', ''streaming'', ''video'', ''channel'']
                     then insights @ [msg_streaming] else insights)
     in if insights = [] then insights @ [msg_fallback] else insights)"

text \<open>
  The same rules as a table of (trigger keywords, message) pairs in the order
  of the source's statements; a rule fires when one of its triggers is among
  the negative keywords.
\<close>

definition insight_rules :: "(string list \<times> string) list" where
  "insight_rules =
    [([''price'', ''subscription'', ''pay''], msg_pricing),
     ([''bug'', ''crash'', ''error'', ''issue''], msg_stability),
     ([''login'', ''account'', ''sign''], msg_login),
     ([''ads'', ''advert''], msg_ads),
     ([''slow'', ''lag'', ''performance''], msg_performance),
     ([''youtube'', ''streaming'', ''video'', ''channel''], msg_streaming)]"

definition rule_fires :: "string list \<Rightarrow> string list \<times> string \<Rightarrow> bool" where
  "rule_fires neg_keywords rule = any_in neg_keywords (fst rule)"

subsection \<open>Text cleaning (\<^verbatim>\<open>clean_text\<close>)\<close>

text \<open>
  A text is a list of characters; a character stands for the Unicode code
  point of its number, so the texts of the model are Python's strings over the
  code points below 256. The three character classes below are the ones
  Python uses on these code points: \<^verbatim>\<open>\s\<close> and \<^verbatim>\<open>str.isspace\<close> (tab to
  carriage return, the separators 28 to 31, space, U+0085, U+00A0), \<^verbatim>\<open>\w\<close>
  under \<^verbatim>\<open>re.UNICODE\<close> (alphanumerics and the underscore) and \<^verbatim>\<open>str.lower\<close>
  (which maps each of these code points to one code point).
\<close>

definition is_space :: "char \<Rightarrow> bool" where
  "is_space c = (let n = (of_char c :: nat)
                 in (9 \<le> n \<and> n \<le> 13) \<or> (28 \<le> n \<and> n \<le> 32) \<or> n = 133 \<or> n = 160)"

definition is_word :: "char \<Rightarrow> bool" where
  "is_word c = (let n = (of_char c :: nat)
                in (48 \<le> n \<and> n \<le> 57) \<or> (65 \<le> n \<and> n \<le> 90) \<or> n = 95 \<or> (97 \<le> n \<and> n \<le> 122)
                 \<or> n = 170 \<or> n = 178 \<or> n = 179 \<or> n = 181 \<or> n = 185 \<or> n = 186
                 \<or> (188 \<le> n \<and> n \<le> 190) \<or> (192 \<le> n \<and> n \<le> 214)
                 \<or> (216 \<le> n \<and> n \<le> 246) \<or> (248 \<le> n \<and> n \<le> 255))"

definition lower_char :: "char \<Rightarrow> char" where
  "lower_char c = (let n = (of_char c :: nat)
                   in if (65 \<le> n \<and> n \<le> 90) \<or> (192 \<le> n \<and> n \<le> 214) \<or> (216 \<le> n \<and> n \<le> 222)
                      then char_of (n + 32) else c)"

text \<open>\<^verbatim>\<open>text.lower()\<close>\<close>

definition lower :: "string \<Rightarrow> string" where
  "lower s = map lower_char s"

text \<open>
  \<^verbatim>\<open>URL_PATTERN = re.compile(r"https?://\S+|www\.\S+")\<close>. A match attempt at the
  head of a text returns the text after the match. \<^verbatim>\<open>\S+\<close> is greedy and
  stands last, so it takes the whole run of non-space characters, which must
  not be empty; \<^verbatim>\<open>s?\<close> first tries to take an \<^verbatim>\<open>s\<close> and backtracks when the rest
  fails; the second alternative is tried when the first one fails.
\<close>

fun strip_prefix :: "string \<Rightarrow> string \<Rightarrow> string option" where
  "strip_prefix [] s = Some s"
| "strip_prefix (p # ps) [] = None"
| "strip_prefix (p # ps) (c # cs) = (if p = c then strip_prefix ps cs else None)"

definition nonspace_run :: "string \<Rightarrow> string option" where
  "nonspace_run s = (case s of [] \<Rightarrow> None
                     | c # cs \<Rightarrow> if is_space c then None
                                else Some (dropWhile (\<lambda>c. \<not> is_space c) cs))"

definition url_tail :: "string \<Rightarrow> string option" where
  "url_tail s = (case strip_prefix ''://'' s of None \<Rightarrow> None | Some r \<Rightarrow> nonspace_run r)"

definition url_match :: "string \<Rightarrow> string option" where
  "url_match s =
    (case (case strip_prefix ''http'' s of None \<Rightarrow> None
           | Some r \<Rightarrow>
              (case (case strip_prefix ''s'' r of None \<Rightarrow> None | Some r' \<Rightarrow> url_tail r') of
                 Some e \<Rightarrow> Some e
               | None \<Rightarrow> url_tail r)) of
       Some e \<Rightarrow> Some e
     | None \<Rightarrow> (case strip_prefix ''www.'' s of None \<Rightarrow> None | Some r \<Rightarrow> nonspace_run r))"

text \<open>
  \<^verbatim>\<open>URL_PATTERN.sub(" ", text)\<close>: the scan goes from left to right; where the
  pattern matches, the match is replaced by one space and the scan goes on
  after it, elsewhere the character is kept.
\<close>

function sub_url :: "string \<Rightarrow> string" where
  "sub_url [] = []"
| "sub_url (c # cs) = (case url_match (c # cs) of
                         Some rest \<Rightarrow> CHR '' '' # sub_url rest
                       | None \<Rightarrow> c # sub_url cs)"
  by pat_completeness auto
termination
proof (relation "measure length", goal_cases)
  case 1
  show ?case by simp
next
  case (2 c cs)
  show ?case by simp
next
  case (3 c cs rest)
  have sp: "length r \<le> length s" if "strip_prefix p s = Some r" for p s r
    using that by (induction p s rule: strip_prefix.induct) (auto split: if_splits)
  have run: "length r < length s" if "nonspace_run s = Some r" for s r
    using that
    by (auto simp: nonspace_run_def le_imp_less_Suc length_dropWhile_le
        split: list.splits if_splits)
  have tail: "length r < length s" if "url_tail s = Some r" for s r
    using that by (auto simp: url_tail_def split: option.splits dest!: sp run)
  have "length r < length s" if "url_match s = Some r" for s r
    using that by (auto simp: url_match_def split: option.splits dest!: sp run tail)
  from this [OF 3] show ?case by simp
qed

text \<open>\<^verbatim>\<open>NON_WORD_PATTERN.sub(" ", text)\<close> with the pattern \<^verbatim>\<open>[^\w\s]\<close>\<close>

definition sub_non_word :: "string \<Rightarrow> string" where
  "sub_non_word s = map (\<lambda>c. if is_word c \<or> is_space c then c else CHR '' '') s"

text \<open>\<^verbatim>\<open>re.sub("\s+", " ", text)\<close>: every maximal run of whitespace becomes one space.\<close>

function collapse_ws :: "string \<Rightarrow> string" where
  "collapse_ws [] = []"
| "collapse_ws (c # cs) = (if is_space c then CHR '' '' # collapse_ws (dropWhile is_space cs)
                           else c # collapse_ws cs)"
  by pat_completeness auto
termination
  by (relation "measure length") (auto simp: le_imp_less_Suc length_dropWhile_le)

text \<open>\<^verbatim>\<open>text.strip()\<close>\<close>

definition strip :: "string \<Rightarrow> string" where
  "strip s = rev (dropWhile is_space (rev (dropWhile is_space s)))"

text \<open>\<^verbatim>\<open>text.split()\<close>: the maximal runs of non-space characters.\<close>

function split :: "string \<Rightarrow> string list" where
  "split s = (case dropWhile is_space s of [] \<Rightarrow> []
      | c # cs \<Rightarrow> (c # takeWhile (\<lambda>c. \<not> is_space c) cs)
                   # split (dropWhile (\<lambda>c. \<not> is_space c) cs))"
  by pat_completeness auto
termination
proof (relation "measure length", goal_cases)
  case 1
  show ?case by simp
next
  case (2 s c cs)
  have "length (dropWhile (\<lambda>c. \<not> is_space c) cs) \<le> length cs"
    by (rule length_dropWhile_le)
  moreover have "length (dropWhile is_space s) \<le> length s"
    by (rule length_dropWhile_le)
  ultimately show ?case using 2 by simp
qed

declare split.simps [simp del]

text \<open>\<^verbatim>\<open>sep.join(tokens)\<close>\<close>

fun join :: "string \<Rightarrow> string list \<Rightarrow> string" where
  "join sep [] = []"
| "join sep [t] = t"
| "join sep (t # ts) = t @ sep @ join sep ts"

definition STOPWORDS :: "string set" where
  "STOPWORDS = {
    ''a'', ''an'', ''the'', ''and'', ''or'', ''but'', ''if'', ''in'', ''on'', ''at'', ''to'', ''for'', ''of'',
    ''is'', ''it'', ''be'', ''as'', ''by'', ''this'', ''that'', ''with'', ''from'', ''are'', ''was'', ''were'', ''so'',
    ''we'', ''he'', ''she'', ''they'', ''you'', ''i'', ''me'', ''my'', ''our'', ''your'', ''their''}"

definition clean_text :: "string \<Rightarrow> string" where
  "clean_text s =
    (if s = [] then []
     else
       let s = lower s;
           s = sub_url s;
           s = sub_non_word s;
           s = strip (collapse_ws s);
           tokens = filter (\<lambda>tok. tok \<notin> STOPWORDS) (split s);
           s = join '' '' tokens
       in s)"

subsection \<open>Python values\<close>

text \<open>
  A float is a finite value, an infinity or NaN. The values that \<^verbatim>\<open>json.load\<close>
  produces: \<^verbatim>\<open>None\<close>, booleans, integers, floats, strings, lists and
  dictionaries (the list of their items).
\<close>

datatype pyfloat = Finite rat | PosInf | NegInf | NaN

datatype json =
    JNull
  | JBool bool
  | JInt int
  | JFloat pyfloat
  | JStr string
  | JArr "json list"
  | JObj "(string \<times> json) list"

datatype py_error =
    AttributeError
  | TypeError
  | ValueError
  | OverflowError
  | ZeroDivisionError
  | UnicodeDecodeError
  | HTTPException nat

text \<open>
  Float arithmetic. A finite float is the rational number it denotes. The
  result of an operation on floats is the exact result rounded to the nearest
  binary64 number, a tie going to the even significand: \<open>to_double\<close> (for
  results below the overflow threshold). \<open>log2_int n\<close> is the position of the
  leading bit of a positive integer and \<open>floor_log2 x\<close> the binary exponent of a
  positive rational; the spacing of the binary64 numbers around \<open>x\<close> is
  \<open>2 powi (max (floor_log2 \<bar>x\<bar>) (- 1022) - 52)\<close>.
\<close>

definition round_half_even :: "rat \<Rightarrow> int" where
  "round_half_even y =
    (let f = \<lfloor>y\<rfloor>; d = y - of_int f
     in if d < 1 / 2 then f else if 1 / 2 < d then f + 1 else if even f then f else f + 1)"

function log2_int :: "int \<Rightarrow> nat" where
  "log2_int n = (if n < 2 then 0 else Suc (log2_int (n div 2)))"
  by pat_completeness auto
termination
  by (relation "measure nat") auto

declare log2_int.simps [simp del]

definition floor_log2 :: "rat \<Rightarrow> int" where
  "floor_log2 x =
    (let (a, b) = quotient_of x;
         d = int (log2_int a) - int (log2_int b)
     in if 2 powi d \<le> x then d else d - 1)"

definition to_double :: "rat \<Rightarrow> rat" where
  "to_double x =
    (if x = 0 then 0
     else let p = max (floor_log2 \<bar>x\<bar>) (- 1022) - 52
          in of_int (round_half_even (x / 2 powi p)) * 2 powi p)"

text \<open>
  \<^verbatim>\<open>round(x, 2)\<close> of a float: the exact value of \<open>x\<close> is rounded to the nearest
  multiple of 1/100, a tie going to the even one (\<open>round2\<close>), and the result
  is the float nearest to that decimal number.
\<close>

definition round2 :: "rat \<Rightarrow> rat" where
  "round2 x = of_int (round_half_even (x * 100)) / 100"

definition py_round2 :: "rat \<Rightarrow> rat" where
  "py_round2 x = to_double (round2 x)"

subsection \<open>Sentiment attachment (\<^verbatim>\<open>transformer_sentiment\<close>, \<^verbatim>\<open>apply_sentiment\<close>)\<close>

text \<open>
  A row of the data frame of cleaned reviews and a row after the sentiment
  columns have been attached. The classifier is a parameter \<open>sent_pipe\<close>: it
  maps a batch of texts to a list of results with a label and a score, the
  score being whatever Python value it returns.
\<close>

record review =
  cleaned_content :: string

record labelled_review = review +
  sentiment :: string
  sentiment_score :: pyfloat

record sent_result =
  label :: string
  score :: json

text \<open>
  The loop \<^verbatim>\<open>for i in range(0, len(texts), batch_size)\<close> with
  \<^verbatim>\<open>batch = texts[i : i + batch_size]\<close>.
\<close>

definition batch_size :: nat where
  "batch_size = 32"

function batch_loop ::
  "(string list \<Rightarrow> sent_result list) \<Rightarrow> string list \<Rightarrow> nat \<Rightarrow> sent_result list
    \<Rightarrow> sent_result list" where
  "batch_loop sent_pipe texts i all_results =
    (if i < length texts
     then batch_loop sent_pipe texts (i + batch_size)
            (all_results @ sent_pipe (take batch_size (drop i texts)))
     else all_results)"
  by pat_completeness auto
termination
  by (relation "measure (\<lambda>(sent_pipe, texts, i, all_results). length texts - i)")
    (auto simp: batch_size_def)

declare batch_loop.simps [simp del]

definition transformer_sentiment ::
  "(string list \<Rightarrow> sent_result list) \<Rightarrow> string list \<Rightarrow> sent_result list" where
  "transformer_sentiment sent_pipe texts = batch_loop sent_pipe texts 0 []"

text \<open>
  The body of the loop over the results: the canonical label and the stored
  score, \<^verbatim>\<open>r["score"] if isinstance(r["score"], float) else 0.0\<close>.
\<close>

definition canonical_label :: "string \<Rightarrow> string" where
  "canonical_label l =
    (let l = lower l
     in if l = ''neutral'' then ''neutral''
        else if l = ''positive'' then ''positive''
        else ''negative'')"

definition stored_score :: "json \<Rightarrow> pyfloat" where
  "stored_score v = (case v of JFloat f \<Rightarrow> f | _ \<Rightarrow> Finite 0)"

text \<open>
  Assigning a column (\<^verbatim>\<open>df["sentiment"] = labels\<close>) raises \<^verbatim>\<open>ValueError\<close> when
  the list is not as long as the frame.
\<close>

definition apply_sentiment ::
  "(string list \<Rightarrow> sent_result list) \<Rightarrow> review list \<Rightarrow> py_error + labelled_review list" where
  "apply_sentiment sent_pipe df =
    (let texts = map cleaned_content df;
         results = transformer_sentiment sent_pipe texts;
         labels = map (\<lambda>r. canonical_label (label r)) results;
         scores = map (\<lambda>r. stored_score (score r)) results
     in if length labels \<noteq> length df then Inl ValueError
        else Inr (map (\<lambda>(row, l, sc).
                    \<lparr>cleaned_content = cleaned_content row, sentiment = l, sentiment_score = sc\<rparr>)
                  (zip df (zip labels scores))))"

text \<open>\<^verbatim>\<open>isinstance(v, (int, float))\<close>; a Python boolean is an int.\<close>

definition is_numeric :: "json \<Rightarrow> bool" where
  "is_numeric v = (case v of JBool b \<Rightarrow> True | JInt i \<Rightarrow> True | JFloat f \<Rightarrow> True | _ \<Rightarrow> False)"

text \<open>
  Two classifiers for the examples: one answers every text with the integer
  score 1, the other with the float score 0.9.
\<close>

definition int_score_pipe :: "string list \<Rightarrow> sent_result list" where
  "int_score_pipe texts = map (\<lambda>t. \<lparr>label = ''POSITIVE'', score = JInt 1\<rparr>) texts"

definition float_score_pipe :: "string list \<Rightarrow> sent_result list" where
  "float_score_pipe texts = map (\<lambda>t. \<lparr>label = ''Neutral'', score = JFloat (Finite (9 / 10))\<rparr>) texts"

subsection \<open>Sentiment metrics (\<^verbatim>\<open>sentiment_metrics\<close>)\<close>

text \<open>
  A dictionary that the code iterates over is the list of its items, with
  distinct keys; the order of the items carries no meaning.
  \<^verbatim>\<open>value_counts().to_dict()\<close> has one item for each label that occurs.
\<close>

definition value_counts :: "string list \<Rightarrow> (string \<times> nat) list" where
  "value_counts labels = map (\<lambda>k. (k, count_list labels k)) (remdups labels)"

text \<open>
  True division \<^verbatim>\<open>a / b\<close> of integers: the float nearest to the exact
  quotient.
\<close>

definition true_div :: "int \<Rightarrow> int \<Rightarrow> py_error + rat" where
  "true_div a b =
    (if b = 0 then Inl ZeroDivisionError else Inr (to_double (of_int a / of_int b)))"

text \<open>\<^verbatim>\<open>{k: round(100 * v / total, 2) for k, v in counts.items()}\<close>\<close>

fun percentages_of :: "nat \<Rightarrow> (string \<times> nat) list \<Rightarrow> py_error + (string \<times> rat) list" where
  "percentages_of n_total [] = Inr []"
| "percentages_of n_total ((k, v) # items) =
    (case true_div (100 * int v) (int n_total) of
       Inl e \<Rightarrow> Inl e
     | Inr q \<Rightarrow>
        (case percentages_of n_total items of
           Inl e \<Rightarrow> Inl e
         | Inr rest \<Rightarrow> Inr ((k, py_round2 q) # rest)))"

text \<open>
  The mean of the score column, \<^verbatim>\<open>df["sentiment_score"].mean()\<close>, is computed
  by the data frame library: it is the parameter \<open>series_mean\<close>.
\<close>

record metrics =
  total_reviews :: nat
  counts :: "(string \<times> nat) list"
  percentages :: "(string \<times> rat) list"
  average_score :: pyfloat

definition sentiment_metrics ::
  "(pyfloat list \<Rightarrow> pyfloat) \<Rightarrow> labelled_review list \<Rightarrow> py_error + metrics" where
  "sentiment_metrics series_mean df =
    (let total = length df;
         counts = value_counts (map sentiment df)
     in case percentages_of total counts of
          Inl e \<Rightarrow> Inl e
        | Inr pcts \<Rightarrow>
            Inr \<lparr>total_reviews = total, counts = counts, percentages = pcts,
                 average_score = series_mean (map sentiment_score df)\<rparr>)"

text \<open>A stand-in for the library mean in the examples.\<close>

definition nan_mean :: "pyfloat list \<Rightarrow> pyfloat" where
  "nan_mean xs = NaN"

subsection \<open>Keyword buckets (\<^verbatim>\<open>keyword_extraction\<close>)\<close>

text \<open>
  The keyword extractor is a parameter \<open>extract_keywords\<close>, applied to the
  joined text and \<open>top_n\<close>. The loop over the three labels stores one bucket
  per label.
\<close>

text \<open>\<^verbatim>\<open>df.loc[df["sentiment"] == sentiment, "cleaned_content"].tolist()\<close>\<close>

definition texts_of :: "labelled_review list \<Rightarrow> string \<Rightarrow> string list" where
  "texts_of df s = map cleaned_content (filter (\<lambda>row. sentiment row = s) df)"

definition keyword_extraction ::
  "(string \<Rightarrow> nat \<Rightarrow> (string \<times> rat) list) \<Rightarrow> labelled_review list \<Rightarrow> nat \<Rightarrow> keyword_dict" where
  "keyword_extraction extract_keywords df top_n =
    foldl (\<lambda>keywords_by_sentiment s.
        let texts = texts_of df s
        in if texts = [] then keywords_by_sentiment(s \<mapsto> [])
           else let joined_text = join '' '' texts
                in keywords_by_sentiment(s \<mapsto> extract_keywords joined_text top_n))
      Map.empty [''positive'', ''negative'', ''neutral'']"

text \<open>An extractor for the examples: it answers every text with one keyword.\<close>

definition constant_extractor :: "string \<Rightarrow> nat \<Rightarrow> (string \<times> rat) list" where
  "constant_extractor joined_text top_n = [(''app'', 1 / 2)]"

subsection \<open>Sunburst hierarchy (\<^verbatim>\<open>build_sunburst\<close>)\<close>

text \<open>
  The source appends to the three parallel lists \<^verbatim>\<open>labels\<close>, \<^verbatim>\<open>parents\<close> and
  \<^verbatim>\<open>values\<close> together; a node is the triple of the entries at one index.
  The rendering and the file output are not part of the model.
\<close>

record node =
  node_label :: string
  node_parent :: string
  node_value :: rat

text \<open>\<^verbatim>\<open>sentiment.capitalize()\<close>, for the ASCII labels the loop runs over.\<close>

definition upper_char :: "char \<Rightarrow> char" where
  "upper_char c = (let n = (of_char c :: nat)
                   in if 97 \<le> n \<and> n \<le> 122 then char_of (n - 32) else c)"

definition capitalize :: "string \<Rightarrow> string" where
  "capitalize s = (case s of [] \<Rightarrow> [] | c # cs \<Rightarrow> upper_char c # lower cs)"

definition build_sunburst :: "metrics \<Rightarrow> keyword_dict \<Rightarrow> node list" where
  "build_sunburst m kws =
    foldl (\<lambda>nodes s.
        let count = (case map_of (counts m) s of None \<Rightarrow> 0 | Some v \<Rightarrow> v)
        in if count = 0 then nodes
           else foldl (\<lambda>nodes (word, sc).
                    nodes @ [\<lparr>node_label = word, node_parent = capitalize s,
                               node_value = py_round2 (to_double (sc * 100))\<rparr>])
                  (nodes @ [\<lparr>node_label = capitalize s, node_parent = ''Reviews'',
                              node_value = of_nat count\<rparr>])
                  (take 50 (dict_get kws s [])))
      [\<lparr>node_label = ''Reviews'', node_parent = [], node_value = of_nat (total_reviews m)\<rparr>]
      [''positive'', ''negative'', ''neutral'']"

text \<open>
  What one round of the loop over the labels appends: nothing for a label
  with count 0, otherwise the bucket node followed by its keyword nodes.
\<close>

definition sentiment_count :: "metrics \<Rightarrow> string \<Rightarrow> nat" where
  "sentiment_count m s = (case map_of (counts m) s of None \<Rightarrow> 0 | Some v \<Rightarrow> v)"

definition bucket_nodes :: "metrics \<Rightarrow> keyword_dict \<Rightarrow> string \<Rightarrow> node list" where
  "bucket_nodes m kws s =
    (if sentiment_count m s = 0 then []
     else \<lparr>node_label = capitalize s, node_parent = ''Reviews'',
            node_value = of_nat (sentiment_count m s)\<rparr>
          # map (\<lambda>(word, sc). \<lparr>node_label = word, node_parent = capitalize s,
                                   node_value = py_round2 (to_double (sc * 100))\<rparr>)
              (take 50 (dict_get kws s [])))"

text \<open>
  A node list is well-formed after the labels \<open>seen\<close> when the parent of each
  node is in \<open>seen\<close> or is the label of an earlier node of the list.
\<close>

fun parents_precede :: "string set \<Rightarrow> node list \<Rightarrow> bool" where
  "parents_precede seen [] = True"
| "parents_precede seen (n # ns) =
    (node_parent n \<in> seen \<and> parents_precede (insert (node_label n) seen) ns)"

text \<open>Metrics and keyword buckets for the examples; no review is neutral.\<close>

definition example_metrics :: metrics where
  "example_metrics =
    \<lparr>total_reviews = 3, counts = [(''negative'', 1), (''positive'', 2)],
     percentages = [(''negative'', to_double (3333 / 100)), (''positive'', to_double (6667 / 100))],
     average_score = Finite (3 / 4)\<rparr>"

definition example_keywords :: keyword_dict where
  "example_keywords =
    [''positive'' \<mapsto> [(''great'', 5 / 8)],
     ''negative'' \<mapsto> [(''crash'', 1 / 2), (''slow'', 1 / 8)],
     ''neutral'' \<mapsto> [(''ok'', 1 / 4)]]"

section \<open>Properties\<close>

subsection \<open>Insight rules\<close>

lemma msg_fallback_distinct:
  "msg_fallback \<noteq> msg_pricing" "msg_fallback \<noteq> msg_stability" "msg_fallback \<noteq> msg_login"
  "msg_fallback \<noteq> msg_ads" "msg_fallback \<noteq> msg_performance" "msg_fallback \<noteq> msg_streaming"
  by (simp_all add: msg_fallback_def msg_pricing_def msg_stability_def msg_login_def
      msg_ads_def msg_performance_def msg_streaming_def)

text \<open>The if-chain computes the messages of the firing rules of the table, in table order.\<close>

lemma generate_insights_table:
  "generate_insights kws =
    (let fired = map snd (filter (rule_fires (neg_keywords_of kws)) insight_rules)
     in if fired = [] then [msg_fallback] else fired)"
  by (simp add: generate_insights_def insight_rules_def rule_fires_def Let_def)

lemma any_in_simps:
  "any_in neg [] = False"
  "any_in neg (t # ts) = (t \<in> set neg \<or> any_in neg ts)"
  by (simp_all add: any_in_def)

text \<open>
  Claim C8. When the first 50 negative keywords contain both \<^verbatim>\<open>crash\<close> and
  \<^verbatim>\<open>login\<close>, the result holds the stability message immediately followed by
  the authentication message (at most the pricing message before them, only
  the ads, performance and streaming messages after them) and does not hold
  the fallback message. In general the fallback message is in the result
  exactly when no rule of the table fires.
\<close>

theorem generate_insights_crash_login:
  "(''crash'' \<in> set (neg_keywords_of kws) \<and> ''login'' \<in> set (neg_keywords_of kws) \<longrightarrow>
      (\<exists>pre post. generate_insights kws = pre @ [msg_stability, msg_login] @ post
          \<and> set pre \<subseteq> {msg_pricing}
          \<and> set post \<subseteq> {msg_ads, msg_performance, msg_streaming})
      \<and> msg_fallback \<notin> set (generate_insights kws))
   \<and> (msg_fallback \<in> set (generate_insights kws)
        \<longleftrightarrow> \<not> list_ex (rule_fires (neg_keywords_of kws)) insight_rules)"
proof -
  let ?neg = "neg_keywords_of kws"
  let ?fired = "map snd (filter (rule_fires ?neg) insight_rules)"
  have tab: "generate_insights kws = (if ?fired = [] then [msg_fallback] else ?fired)"
    by (simp add: generate_insights_table Let_def)
  have nofb: "msg_fallback \<notin> set ?fired"
    using msg_fallback_distinct by (auto simp: insight_rules_def)
  have empty: "?fired = [] \<longleftrightarrow> \<not> list_ex (rule_fires ?neg) insight_rules"
    by (simp add: filter_empty_conv list_ex_iff)
  have general: "msg_fallback \<in> set (generate_insights kws)
        \<longleftrightarrow> \<not> list_ex (rule_fires ?neg) insight_rules"
    using nofb empty tab by (cases "?fired = []") simp_all
  have scenario: "(\<exists>pre post. generate_insights kws = pre @ [msg_stability, msg_login] @ post
          \<and> set pre \<subseteq> {msg_pricing}
          \<and> set post \<subseteq> {msg_ads, msg_performance, msg_streaming})
      \<and> msg_fallback \<notin> set (generate_insights kws)"
    if c: "''crash'' \<in> set ?neg" and l: "''login'' \<in> set ?neg"
  proof -
    have s: "rule_fires ?neg ([''bug'', ''crash'', ''error'', ''issue''], msg_stability)"
      using c by (simp add: rule_fires_def any_in_simps)
    have a: "rule_fires ?neg ([''login'', ''account'', ''sign''], msg_login)"
      using l by (simp add: rule_fires_def any_in_simps)
    define pre where "pre = map snd (filter (rule_fires ?neg)
        [([''price'', ''subscription'', ''pay''], msg_pricing)])"
    define post where "post = map snd (filter (rule_fires ?neg)
        [([''ads'', ''advert''], msg_ads),
         ([''slow'', ''lag'', ''performance''], msg_performance),
         ([''youtube'', ''streaming'', ''video'', ''channel''], msg_streaming)])"
    have f: "?fired = pre @ [msg_stability, msg_login] @ post"
      using s a by (simp add: insight_rules_def pre_def post_def)
    have "generate_insights kws = pre @ [msg_stability, msg_login] @ post"
      using tab f by simp
    moreover have "set pre \<subseteq> {msg_pricing}" by (auto simp: pre_def)
    moreover have "set post \<subseteq> {msg_ads, msg_performance, msg_streaming}"
      by (auto simp: post_def)
    moreover have "msg_fallback \<notin> set (generate_insights kws)"
      using general s by (simp add: insight_rules_def)
    ultimately show ?thesis by blast
  qed
  show ?thesis using general scenario by blast
qed

theorem generate_insights_crash_login_witness:
  "''crash'' \<in> set (neg_keywords_of [''negative'' \<mapsto> [(''crash'', 1/2), (''login'', 1/4)]])
   \<and> ''login'' \<in> set (neg_keywords_of [''negative'' \<mapsto> [(''crash'', 1/2), (''login'', 1/4)]])
   \<and> generate_insights [''negative'' \<mapsto> [(''crash'', 1/2), (''login'', 1/4)]]
        = [msg_stability, msg_login]
   \<and> msg_fallback \<notin> set (generate_insights [''negative'' \<mapsto> [(''crash'', 1/2), (''login'', 1/4)]])"
  using generate_insights_crash_login [of "[''negative'' \<mapsto> [(''crash'', 1/2), (''login'', 1/4)]]"]
  by (simp add: generate_insights_def neg_keywords_of_def dict_get_def any_in_simps)



subsection \<open>Text cleaning\<close>






















lemma join_Cons: "ts \<noteq> [] \<Longrightarrow> join sep (t # ts) = t @ sep @ join sep ts"
  by (cases ts) simp_all
















text \<open>
  Claim C9. The text \<^verbatim>\<open>Great app!! Visit https://x.com now\<close> is cleaned to
  \<^verbatim>\<open>great app visit now\<close>: the URL and the punctuation are gone, the
  whitespace is collapsed, and \<^verbatim>\<open>now\<close> stays because it is not a stopword.
\<close>

theorem clean_text_scenario:
  "clean_text ''Great app!! Visit https://x.com now'' = ''great app visit now''
   \<and> ''now'' \<notin> STOPWORDS"
  by (simp add: STOPWORDS_def) code_simp

subsection \<open>Sentiment attachment\<close>

text \<open>
  Claim C4, as stated, fails on an integer score: the classifier returns the
  numeric score 1 and the stored score is 0.0.
\<close>

theorem apply_sentiment_int_score_counterexample:
  "is_numeric (score (hd (transformer_sentiment int_score_pipe [''good''])))
   \<and> score (hd (transformer_sentiment int_score_pipe [''good''])) = JInt 1
   \<and> apply_sentiment int_score_pipe [\<lparr>cleaned_content = ''good''\<rparr>]
       = Inr [\<lparr>cleaned_content = ''good'', sentiment = ''positive'', sentiment_score = Finite 0\<rparr>]
   \<and> JFloat (Finite 0) \<noteq> JInt 1"
  by code_simp

text \<open>
  Claim C4, amended. When the classifier returns one result per row, the
  attachment does not raise, and the stored score of each row is the returned
  score when that is a float and 0.0 when it is any other value (an integer
  included).
\<close>

theorem apply_sentiment_scores:
  assumes "length (transformer_sentiment sent_pipe (map cleaned_content df)) = length df"
  shows "\<exists>df'. apply_sentiment sent_pipe df = Inr df' \<and> length df' = length df
      \<and> (\<forall>i<length df.
            sentiment_score (df' ! i) =
              (case score (transformer_sentiment sent_pipe (map cleaned_content df) ! i) of
                 JFloat f \<Rightarrow> f
               | _ \<Rightarrow> Finite 0))"
proof -
  let ?results = "transformer_sentiment sent_pipe (map cleaned_content df)"
  let ?labels = "map (\<lambda>r. canonical_label (label r)) ?results"
  let ?scores = "map (\<lambda>r. stored_score (score r)) ?results"
  let ?df' = "map (\<lambda>(row, l, sc).
      \<lparr>cleaned_content = cleaned_content row, sentiment = l, sentiment_score = sc\<rparr>)
      (zip df (zip ?labels ?scores))"
  have eq: "apply_sentiment sent_pipe df = Inr ?df'"
    using assms by (simp add: apply_sentiment_def Let_def)
  have len: "length ?df' = length df" using assms by simp
  have "sentiment_score (?df' ! i) = stored_score (score (?results ! i))" if "i < length df" for i
    using that assms by simp
  then show ?thesis using eq len by (auto simp: stored_score_def)
qed

theorem apply_sentiment_scores_witness:
  "length (transformer_sentiment float_score_pipe (map cleaned_content [\<lparr>cleaned_content = ''fine''\<rparr>]))
     = length [\<lparr>cleaned_content = ''fine''\<rparr>]
   \<and> apply_sentiment float_score_pipe [\<lparr>cleaned_content = ''fine''\<rparr>]
       = Inr [\<lparr>cleaned_content = ''fine'', sentiment = ''neutral'', sentiment_score = Finite (9 / 10)\<rparr>]"
proof -
  have "apply_sentiment float_score_pipe [\<lparr>cleaned_content = ''fine''\<rparr>]
       = Inr [\<lparr>cleaned_content = ''fine'', sentiment = ''neutral'', sentiment_score = Finite (9 / 10)\<rparr>]"
    by code_simp
  moreover have "length (transformer_sentiment float_score_pipe
      (map cleaned_content [\<lparr>cleaned_content = ''fine''\<rparr>])) = length [\<lparr>cleaned_content = ''fine''\<rparr>]"
    by code_simp
  ultimately show ?thesis
    using apply_sentiment_scores [of float_score_pipe "[\<lparr>cleaned_content = ''fine''\<rparr>]"]
    by simp
qed

subsection \<open>Sentiment metrics\<close>

lemma round_half_even_close: "\<bar>of_int (round_half_even y) - y\<bar> \<le> 1 / 2"
proof -
  have "of_int \<lfloor>y\<rfloor> \<le> y" "y < of_int \<lfloor>y\<rfloor> + 1" by linarith+
  then show ?thesis by (auto simp: round_half_even_def Let_def)
qed

lemma round_half_even_nonneg: "0 \<le> y \<Longrightarrow> 0 \<le> round_half_even y"
proof -
  assume "0 \<le> y"
  then have "0 \<le> \<lfloor>y\<rfloor>" by simp
  then show ?thesis by (auto simp: round_half_even_def Let_def)
qed

lemma log2_int_bounds:
  "0 < n \<Longrightarrow> 2 ^ log2_int n \<le> n \<and> n < 2 * 2 ^ log2_int n"
proof (induction n rule: log2_int.induct)
  case (1 n)
  show ?case
  proof (cases "n < 2")
    case True
    with "1.prems" show ?thesis by (simp add: log2_int.simps [of n])
  next
    case False
    then have pos: "0 < n div 2" by simp
    from "1.IH" [OF False pos]
    have IH: "2 ^ log2_int (n div 2) \<le> n div 2" "n div 2 < 2 * 2 ^ log2_int (n div 2)"
      by simp_all
    have eq: "log2_int n = Suc (log2_int (n div 2))"
      using False by (simp add: log2_int.simps [of n])
    from IH show ?thesis unfolding eq by simp linarith
  qed
qed


lemma floor_log2_bounds:
  assumes "0 < x"
  shows "2 powi floor_log2 x \<le> x \<and> x < 2 powi (floor_log2 x + 1)"
proof -
  obtain a b where q: "quotient_of x = (a, b)" by (cases "quotient_of x")
  have b: "0 < b" using q by (rule quotient_of_denom_pos)
  have x: "x = of_int a / of_int b" using q by (rule quotient_of_div)
  have a: "0 < a" using assms b x by (simp add: zero_less_divide_iff)
  define la lb where "la = log2_int a" and "lb = log2_int b"
  define d where "d = int la - int lb"
  have rat_bounds: "(2::rat) ^ log2_int n \<le> of_int n \<and> of_int n < (2::rat) * 2 ^ log2_int n"
    if "0 < n" for n
  proof -
    from log2_int_bounds [OF that]
    have "(of_int (2 ^ log2_int n) :: rat) \<le> of_int n"
      and "(of_int n :: rat) < of_int (2 * 2 ^ log2_int n)"
      by (simp_all only: of_int_le_iff of_int_less_iff)
    then show ?thesis by simp
  qed
  from rat_bounds [OF a] have a1: "(2::rat) ^ la \<le> of_int a" and a2: "of_int a < (2::rat) * 2 ^ la"
    unfolding la_def by simp_all
  from rat_bounds [OF b] have b1: "(2::rat) ^ lb \<le> of_int b" and b2: "of_int b < (2::rat) * 2 ^ lb"
    unfolding lb_def by simp_all
  have bpos: "(0::rat) < of_int b" using b by simp
  have d0: "(2::rat) powi d = 2 ^ la / 2 ^ lb"
    unfolding d_def by (simp add: power_int_diff)
  have d1: "(2::rat) powi (d + 1) = 2 * 2 ^ la / 2 ^ lb"
    using d0 by (simp add: power_int_add)
  have dm: "(2::rat) powi (d - 1) = 2 ^ la / (2 * 2 ^ lb)"
    using d0 by (simp add: power_int_diff)
  have up: "x < 2 powi (d + 1)"
  proof -
    have "x < 2 * 2 ^ la / of_int b" unfolding x using a2 bpos by (simp add: divide_strict_right_mono)
    also have "\<dots> \<le> 2 * 2 ^ la / 2 ^ lb" using b1 by (simp add: frac_le)
    finally show ?thesis by (simp add: d1)
  qed
  have low: "2 powi (d - 1) \<le> x"
  proof -
    have "(2::rat) ^ la / (2 * 2 ^ lb) \<le> 2 ^ la / of_int b"
      using b2 bpos by (simp add: frac_le)
    also have "\<dots> \<le> x" unfolding x using a1 bpos by (simp add: divide_right_mono)
    finally show ?thesis by (simp add: dm)
  qed
  have fl: "floor_log2 x = (if 2 powi d \<le> x then d else d - 1)"
    by (simp add: floor_log2_def q Let_def d_def la_def lb_def)
  show ?thesis
  proof (cases "2 powi d \<le> x")
    case True
    with fl up show ?thesis by simp
  next
    case False
    with fl low show ?thesis by simp
  qed
qed


lemma to_double_close:
  assumes "0 < x" and "x < 128"
  shows "\<bar>to_double x - x\<bar> \<le> 2 powi (- 47)"
proof -
  define e where "e = floor_log2 x"
  define p where "p = max e (- 1022) - 52"
  define u :: rat where "u = 2 powi p"
  have upos: "0 < u" by (simp add: u_def)
  from floor_log2_bounds [OF assms(1)] have "2 powi e \<le> x" by (simp add: e_def)
  with assms(2) have "(2::rat) powi e < 2 powi 7" by simp
  then have "e < 7" by (rule power_int_le_imp_less_exp [rotated]) simp_all
  then have p: "p \<le> - 46" by (simp add: p_def)
  have "u \<le> 2 powi (- 46)" unfolding u_def using p by (intro power_int_increasing) simp_all
  then have u: "u / 2 \<le> 2 powi (- 47)" by (simp add: power_int_minus_divide)
  have td: "to_double x = of_int (round_half_even (x / u)) * u"
    using assms(1) by (simp add: to_double_def Let_def e_def p_def u_def)
  have "\<bar>to_double x - x\<bar> = \<bar>of_int (round_half_even (x / u)) - x / u\<bar> * u"
  proof -
    have "to_double x - x = (of_int (round_half_even (x / u)) - x / u) * u"
      using upos by (simp add: td field_simps)
    then show ?thesis using upos by (simp add: abs_mult)
  qed
  also have "\<dots> \<le> 1 / 2 * u"
    using round_half_even_close [of "x / u"] upos by (intro mult_right_mono) simp_all
  finally show ?thesis using u by simp
qed


lemma to_double_nonneg: "0 \<le> x \<Longrightarrow> 0 \<le> to_double x"
  by (simp add: to_double_def Let_def round_half_even_nonneg)

lemma to_double_close0:
  assumes "0 \<le> x" and "x < 128"
  shows "\<bar>to_double x - x\<bar> \<le> 2 powi (- 47)"
proof (cases "x = 0")
  case True
  then show ?thesis by (simp add: to_double_def)
next
  case False
  with assms show ?thesis by (intro to_double_close) simp_all
qed

lemma round2_close: "\<bar>round2 x - x\<bar> \<le> 1 / 200"
  using round_half_even_close [of "x * 100"] unfolding round2_def by linarith

lemma round2_nonneg: "0 \<le> x \<Longrightarrow> 0 \<le> round2 x"
  by (simp add: round2_def round_half_even_nonneg)

lemma percentage_close:
  assumes "0 \<le> q" and "q \<le> 100"
  shows "\<bar>py_round2 (to_double q) - q\<bar> \<le> 1 / 200 + 2 powi (- 46)"
proof -
  let ?e = "(2::rat) powi (- 47)"
  have e: "?e \<le> 1" by (simp add: power_int_minus_divide)
  have 1: "\<bar>to_double q - q\<bar> \<le> ?e" using assms by (intro to_double_close0) simp_all
  have f0: "0 \<le> to_double q" using assms(1) by (rule to_double_nonneg)
  have 2: "\<bar>round2 (to_double q) - to_double q\<bar> \<le> 1 / 200" by (rule round2_close)
  have d0: "0 \<le> round2 (to_double q)" using f0 by (rule round2_nonneg)
  have "round2 (to_double q) < 128" using 1 2 assms(2) e by linarith
  with d0 have 3: "\<bar>to_double (round2 (to_double q)) - round2 (to_double q)\<bar> \<le> ?e"
    by (rule to_double_close0)
  have "(2::rat) powi (- 46) = 2 * ?e" by (simp add: power_int_minus_divide)
  with 1 2 3 show ?thesis unfolding py_round2_def by linarith
qed


lemma percentages_of_nonzero:
  "n \<noteq> 0 \<Longrightarrow> percentages_of n items
     = Inr (map (\<lambda>(k, v). (k, py_round2 (to_double (100 * of_nat v / of_nat n)))) items)"
  by (induction n items rule: percentages_of.induct) (simp_all add: true_div_def)

lemma map_of_value_counts:
  "map_of (value_counts labels) k
     = (if k \<in> set labels then Some (count_list labels k) else None)"
  by (simp add: value_counts_def map_of_map_restrict restrict_map_def)

lemma map_of_map_value:
  "map_of (map (\<lambda>(k, v). (k, f v)) items) k = map_option f (map_of items k)"
  by (induction items) auto

text \<open>
  At 3999 positive labels of 4000 the exact quotient 99.975 is a decimal tie,
  the float quotient lies below it, and the percentages are the floats 99.97
  and 0.03.
\<close>

lemma percentages_of_4000:
  "percentages_of 4000 [(''positive'', 3999), (''negative'', 1)]
     = Inr [(''positive'', to_double (9997 / 100)), (''negative'', to_double (3 / 100))]"
proof -
  have "py_round2 (to_double (399900 / 4000)) = to_double (9997 / 100)"
    "py_round2 (to_double (100 / 4000)) = to_double (3 / 100)"
    by code_simp+
  then show ?thesis by (simp add: true_div_def)
qed

text \<open>
  Claim C3. On the empty labelled corpus the metrics are returned, not an
  error: total 0, no counts, no percentages (and the library's mean of no
  score). On a non-empty corpus the metrics are returned too, with one count
  per occurring label and one percentage per count: the float quotient
  \<open>100 * count / total\<close> rounded to two decimals, that is, the float nearest to
  a multiple of 1/100, within 0.005 (and the float rounding error) of the
  exact quotient.
\<close>

theorem sentiment_metrics_empty_and_percentages:
  "sentiment_metrics series_mean []
     = Inr \<lparr>total_reviews = 0, counts = [], percentages = [], average_score = series_mean []\<rparr>
   \<and> (df \<noteq> [] \<longrightarrow>
        (\<exists>m. sentiment_metrics series_mean df = Inr m
           \<and> total_reviews m = length df
           \<and> (\<forall>k. map_of (counts m) k
                  = (if k \<in> sentiment ` set df
                     then Some (count_list (map sentiment df) k) else None))
           \<and> (\<forall>k. map_of (percentages m) k
                  = map_option (\<lambda>v. py_round2 (to_double (100 * of_nat v / of_nat (length df))))
                      (map_of (counts m) k))
           \<and> (\<forall>k p. map_of (percentages m) k = Some p \<longrightarrow>
                  (\<exists>n. p = to_double (of_int n / 100))
                  \<and> \<bar>p - 100 * of_nat (count_list (map sentiment df) k) / of_nat (length df)\<bar>
                      \<le> 1 / 200 + 2 powi (- 46))))"
proof -
  have empty: "sentiment_metrics series_mean []
     = Inr \<lparr>total_reviews = 0, counts = [], percentages = [], average_score = series_mean []\<rparr>"
    by (simp add: sentiment_metrics_def value_counts_def)
  have nonempty: "\<exists>m. sentiment_metrics series_mean df = Inr m
           \<and> total_reviews m = length df
           \<and> (\<forall>k. map_of (counts m) k
                  = (if k \<in> sentiment ` set df
                     then Some (count_list (map sentiment df) k) else None))
           \<and> (\<forall>k. map_of (percentages m) k
                  = map_option (\<lambda>v. py_round2 (to_double (100 * of_nat v / of_nat (length df))))
                      (map_of (counts m) k))
           \<and> (\<forall>k p. map_of (percentages m) k = Some p \<longrightarrow>
                  (\<exists>n. p = to_double (of_int n / 100))
                  \<and> \<bar>p - 100 * of_nat (count_list (map sentiment df) k) / of_nat (length df)\<bar>
                      \<le> 1 / 200 + 2 powi (- 46))" if "df \<noteq> []"
  proof -
    let ?n = "length df"
    let ?pct = "\<lambda>v. py_round2 (to_double (100 * of_nat v / of_nat ?n))"
    let ?cs = "value_counts (map sentiment df)"
    let ?ps = "map (\<lambda>(k, v). (k, ?pct v)) ?cs"
    let ?m = "\<lparr>total_reviews = ?n, counts = ?cs, percentages = ?ps,
               average_score = series_mean (map sentiment_score df)\<rparr>"
    have n: "?n \<noteq> 0" using that by simp
    have m: "sentiment_metrics series_mean df = Inr ?m"
      by (simp add: sentiment_metrics_def Let_def percentages_of_nonzero [OF n])
    have cs: "\<forall>k. map_of (counts ?m) k
                  = (if k \<in> sentiment ` set df
                     then Some (count_list (map sentiment df) k) else None)"
      by (simp add: map_of_value_counts)
    have ps: "\<forall>k. map_of (percentages ?m) k = map_option ?pct (map_of (counts ?m) k)"
      by (simp add: map_of_map_value)
    have close: "(\<exists>i. p = to_double (of_int i / 100))
                  \<and> \<bar>p - 100 * of_nat (count_list (map sentiment df) k) / of_nat ?n\<bar>
                      \<le> 1 / 200 + 2 powi (- 46)"
      if p: "map_of (percentages ?m) k = Some p" for k p
    proof -
      let ?v = "count_list (map sentiment df) k"
      let ?q = "100 * of_nat ?v / (of_nat ?n :: rat)"
      from p ps cs have pv: "p = ?pct ?v" by (auto split: if_splits)
      have "?v \<le> ?n" using count_le_length [of "map sentiment df" k] by simp
      then have "(of_nat ?v :: rat) \<le> of_nat ?n" by (simp only: of_nat_le_iff)
      moreover have "(0::rat) < of_nat ?n" using n by simp
      ultimately have q: "0 \<le> ?q" "?q \<le> 100" by (simp_all add: divide_le_eq)
      have "p = to_double (of_int (round_half_even (to_double ?q * 100)) / 100)"
        by (simp add: pv py_round2_def round2_def)
      then have "\<exists>i. p = to_double (of_int i / 100)" by blast
      moreover have "\<bar>p - ?q\<bar> \<le> 1 / 200 + 2 powi (- 46)"
        unfolding pv using q by (rule percentage_close)
      ultimately show ?thesis by blast
    qed
    have "total_reviews ?m = ?n" by simp
    with m cs ps close show ?thesis by blast
  qed
  from empty nonempty show ?thesis by blast
qed


theorem sentiment_metrics_empty_and_percentages_witness:
  "[\<lparr>cleaned_content = ''a'', sentiment = ''positive'', sentiment_score = Finite (3 / 4)\<rparr>,
    \<lparr>cleaned_content = ''b'', sentiment = ''negative'', sentiment_score = Finite (1 / 2)\<rparr>,
    \<lparr>cleaned_content = ''c'', sentiment = ''positive'', sentiment_score = Finite (7 / 8)\<rparr>] \<noteq> []
   \<and> sentiment_metrics nan_mean
        [\<lparr>cleaned_content = ''a'', sentiment = ''positive'', sentiment_score = Finite (3 / 4)\<rparr>,
         \<lparr>cleaned_content = ''b'', sentiment = ''negative'', sentiment_score = Finite (1 / 2)\<rparr>,
         \<lparr>cleaned_content = ''c'', sentiment = ''positive'', sentiment_score = Finite (7 / 8)\<rparr>]
       = Inr \<lparr>total_reviews = 3, counts = [(''negative'', 1), (''positive'', 2)],
              percentages = [(''negative'', to_double (3333 / 100)),
                             (''positive'', to_double (6667 / 100))],
              average_score = NaN\<rparr>"
proof -
  have pct: "py_round2 (to_double (100 / 3)) = to_double (3333 / 100)"
    "py_round2 (to_double (200 / 3)) = to_double (6667 / 100)"
    by code_simp+
  have "sentiment_metrics nan_mean
        [\<lparr>cleaned_content = ''a'', sentiment = ''positive'', sentiment_score = Finite (3 / 4)\<rparr>,
         \<lparr>cleaned_content = ''b'', sentiment = ''negative'', sentiment_score = Finite (1 / 2)\<rparr>,
         \<lparr>cleaned_content = ''c'', sentiment = ''positive'', sentiment_score = Finite (7 / 8)\<rparr>]
       = Inr \<lparr>total_reviews = 3, counts = [(''negative'', 1), (''positive'', 2)],
              percentages = [(''negative'', to_double (3333 / 100)),
                             (''positive'', to_double (6667 / 100))],
              average_score = NaN\<rparr>"
    by (simp add: sentiment_metrics_def value_counts_def true_div_def nan_mean_def pct)
  then show ?thesis
    using sentiment_metrics_empty_and_percentages
      [of nan_mean
        "[\<lparr>cleaned_content = ''a'', sentiment = ''positive'', sentiment_score = Finite (3 / 4)\<rparr>,
         \<lparr>cleaned_content = ''b'', sentiment = ''negative'', sentiment_score = Finite (1 / 2)\<rparr>,
         \<lparr>cleaned_content = ''c'', sentiment = ''positive'', sentiment_score = Finite (7 / 8)\<rparr>]"]
    by simp
qed

subsection \<open>Keyword buckets\<close>

text \<open>
  Claim C5, as stated, fails when a label is carried only by reviews with an
  empty cleaned text: the joined text is empty, yet the extractor is called
  and its answer is the bucket.
\<close>

theorem keyword_extraction_empty_blob_counterexample:
  "join '' '' (texts_of
       [\<lparr>cleaned_content = [], sentiment = ''negative'', sentiment_score = Finite 0\<rparr>] ''negative'') = []
   \<and> keyword_extraction constant_extractor
       [\<lparr>cleaned_content = [], sentiment = ''negative'', sentiment_score = Finite 0\<rparr>] 50 ''negative''
       = Some [(''app'', 1 / 2)]"
  by (simp add: keyword_extraction_def texts_of_def constant_extractor_def)

text \<open>
  Claim C5, amended. For each of the three labels the bucket is empty, whatever
  the extractor, when no review carries the label; otherwise it is the
  extractor's answer on the cleaned texts of the reviews carrying the label,
  joined by single spaces in the order of the reviews (also when that joined
  text is empty).
\<close>

theorem keyword_extraction_buckets:
  assumes "s \<in> {''positive'', ''negative'', ''neutral''}"
  shows "keyword_extraction extract_keywords df top_n s =
    Some (if texts_of df s = [] then []
          else extract_keywords (join '' '' (texts_of df s)) top_n)"
  using assms by (auto simp: keyword_extraction_def Let_def)

theorem keyword_extraction_buckets_witness:
  "''negative'' \<in> {''positive'', ''negative'', ''neutral''}
   \<and> texts_of
       [\<lparr>cleaned_content = ''slow app'', sentiment = ''negative'', sentiment_score = Finite (4 / 5)\<rparr>,
        \<lparr>cleaned_content = ''great'', sentiment = ''positive'', sentiment_score = Finite (9 / 10)\<rparr>,
        \<lparr>cleaned_content = ''crash'', sentiment = ''negative'', sentiment_score = Finite (7 / 10)\<rparr>]
       ''negative'' = [''slow app'', ''crash'']
   \<and> keyword_extraction (\<lambda>joined_text top_n. [(joined_text, 1)])
       [\<lparr>cleaned_content = ''slow app'', sentiment = ''negative'', sentiment_score = Finite (4 / 5)\<rparr>,
        \<lparr>cleaned_content = ''great'', sentiment = ''positive'', sentiment_score = Finite (9 / 10)\<rparr>,
        \<lparr>cleaned_content = ''crash'', sentiment = ''negative'', sentiment_score = Finite (7 / 10)\<rparr>]
       50 ''negative'' = Some [(''slow app crash'', 1)]"
  using keyword_extraction_buckets [of "''negative''" "\<lambda>joined_text top_n. [(joined_text, 1)]"
      "[\<lparr>cleaned_content = ''slow app'', sentiment = ''negative'', sentiment_score = Finite (4 / 5)\<rparr>,
        \<lparr>cleaned_content = ''great'', sentiment = ''positive'', sentiment_score = Finite (9 / 10)\<rparr>,
        \<lparr>cleaned_content = ''crash'', sentiment = ''negative'', sentiment_score = Finite (7 / 10)\<rparr>]" 50]
  by (simp add: texts_of_def)

subsection \<open>Sunburst hierarchy\<close>

lemma capitalize_labels:
  "capitalize ''positive'' = ''Positive''"
  "capitalize ''negative'' = ''Negative''"
  "capitalize ''neutral'' = ''Neutral''"
  by code_simp+

lemma foldl_append_nodes:
  "foldl (\<lambda>nodes (word, sc). nodes @ [f word sc]) ns0 xs
     = ns0 @ map (\<lambda>(word, sc). f word sc) xs"
  by (induction xs arbitrary: ns0) (auto split: prod.splits)

lemma build_sunburst_blocks:
  "build_sunburst m kws =
     \<lparr>node_label = ''Reviews'', node_parent = [], node_value = of_nat (total_reviews m)\<rparr>
     # bucket_nodes m kws ''positive'' @ bucket_nodes m kws ''negative''
       @ bucket_nodes m kws ''neutral''"
  by (simp add: build_sunburst_def bucket_nodes_def sentiment_count_def Let_def
      foldl_append_nodes)

lemma parents_precede_mono:
  "parents_precede S ns \<Longrightarrow> S \<subseteq> T \<Longrightarrow> parents_precede T ns"
proof (induction ns arbitrary: S T)
  case Nil
  show ?case by simp
next
  case (Cons n ns)
  from Cons.prems have 1: "parents_precede (insert (node_label n) S) ns" by simp
  from Cons.prems have 2: "insert (node_label n) S \<subseteq> insert (node_label n) T" by auto
  from Cons.IH [OF 1 2] Cons.prems show ?case by auto
qed

lemma parents_precede_append:
  "parents_precede S (xs @ ys)
     = (parents_precede S xs \<and> parents_precede (S \<union> node_label ` set xs) ys)"
  by (induction xs arbitrary: S) (auto simp: insert_commute Un_insert_left)

lemma parents_precede_same_parent:
  "p \<in> S \<Longrightarrow> \<forall>n\<in>set ns. node_parent n = p \<Longrightarrow> parents_precede S ns"
  by (induction ns arbitrary: S) auto

lemma parents_precede_bucket_nodes:
  "''Reviews'' \<in> S \<Longrightarrow> parents_precede S (bucket_nodes m kws s)"
  by (auto simp: bucket_nodes_def intro!: parents_precede_same_parent split: prod.splits)

lemma parents_precede_nth:
  "parents_precede S ns \<Longrightarrow> i < length ns
     \<Longrightarrow> node_parent (ns ! i) \<in> S \<union> node_label ` set (take i ns)"
proof (induction ns arbitrary: S i)
  case Nil
  then show ?case by simp
next
  case (Cons n ns)
  show ?case
  proof (cases i)
    case 0
    with Cons.prems show ?thesis by simp
  next
    case (Suc k)
    with Cons.prems have "parents_precede (insert (node_label n) S) ns" "k < length ns" by auto
    from Cons.IH [OF this] Suc show ?thesis by auto
  qed
qed



lemma bucket_nodes_kinds:
  assumes "n \<in> set (bucket_nodes m kws s)"
  shows "sentiment_count m s \<noteq> 0"
    and "(node_parent n = ''Reviews'' \<and> node_label n = capitalize s
           \<and> node_value n = of_nat (sentiment_count m s))
         \<or> node_parent n = capitalize s"
  using assms by (auto simp: bucket_nodes_def split: if_splits)

lemma capitalize_distinct:
  assumes "s \<in> {''positive'', ''negative'', ''neutral''}"
  shows "capitalize s \<noteq> ''Reviews''" and "capitalize s \<noteq> []"
    and "s' \<in> {''positive'', ''negative'', ''neutral''} \<Longrightarrow> s' \<noteq> s
         \<Longrightarrow> capitalize s' \<noteq> capitalize s"
  using assms by (auto simp: capitalize_labels)

lemma build_sunburst_members:
  assumes "n \<in> set (build_sunburst m kws)"
  shows "n = \<lparr>node_label = ''Reviews'', node_parent = [], node_value = of_nat (total_reviews m)\<rparr>
         \<or> (\<exists>s\<in>{''positive'', ''negative'', ''neutral''}. n \<in> set (bucket_nodes m kws s))"
  using assms unfolding build_sunburst_blocks by auto


lemma build_sunburst_order:
  assumes "i < length (build_sunburst m kws)" and "0 < i"
  shows "\<exists>j<i. node_label (build_sunburst m kws ! j) = node_parent (build_sunburst m kws ! i)"
proof -
  let ?root = "\<lparr>node_label = ''Reviews'', node_parent = [], node_value = of_nat (total_reviews m)\<rparr>"
  let ?rest = "bucket_nodes m kws ''positive'' @ bucket_nodes m kws ''negative''
       @ bucket_nodes m kws ''neutral''"
  let ?ns = "build_sunburst m kws"
  have ns: "?ns = ?root # ?rest" by (rule build_sunburst_blocks)
  have pp: "parents_precede {''Reviews''} ?rest"
    by (simp add: parents_precede_append parents_precede_bucket_nodes)
  from assms obtain k where k: "i = Suc k" "k < length ?rest"
    by (cases i) (simp_all add: ns)
  from parents_precede_nth [OF pp k(2)]
  have "node_parent (?rest ! k) \<in> node_label ` set (take i ?ns)"
    by (simp add: ns k(1))
  then obtain x where x: "x \<in> set (take i ?ns)" "node_label x = node_parent (?rest ! k)"
    by auto
  then obtain j where j: "j < length (take i ?ns)" "take i ?ns ! j = x"
    unfolding in_set_conv_nth by blast
  then have "j < i" "?ns ! j = x" by simp_all
  moreover have "?ns ! i = ?rest ! k" by (simp add: ns k(1))
  ultimately show ?thesis using x(2) by auto
qed

lemma build_sunburst_weight:
  assumes "n \<in> set (build_sunburst m kws)" and "node_parent n = ''Reviews''"
  shows "node_value n \<noteq> 0"
proof -
  have "n \<noteq> \<lparr>node_label = ''Reviews'', node_parent = [], node_value = of_nat (total_reviews m)\<rparr>"
  proof
    assume "n = \<lparr>node_label = ''Reviews'', node_parent = [], node_value = of_nat (total_reviews m)\<rparr>"
    then have "node_parent n = []" by simp
    with assms(2) show False by simp
  qed
  with build_sunburst_members [OF assms(1)]
  obtain s where s: "s \<in> {''positive'', ''negative'', ''neutral''}"
    "n \<in> set (bucket_nodes m kws s)"
    by blast
  have "node_parent n \<noteq> capitalize s"
    using capitalize_distinct(1) [OF s(1)] assms(2) by simp
  with bucket_nodes_kinds(2) [OF s(2)]
  have "node_value n = of_nat (sentiment_count m s)" by blast
  with bucket_nodes_kinds(1) [OF s(2)] show ?thesis by simp
qed

lemma build_sunburst_omitted:
  assumes "s \<in> {''positive'', ''negative'', ''neutral''}" and "sentiment_count m s = 0"
    and "n \<in> set (build_sunburst m kws)"
  shows "node_parent n \<noteq> capitalize s
         \<and> \<not> (node_parent n = ''Reviews'' \<and> node_label n = capitalize s)"
proof -
  note caps = capitalize_distinct [OF assms(1)]
  from build_sunburst_members [OF assms(3)] show ?thesis
  proof
    assume "n = \<lparr>node_label = ''Reviews'', node_parent = [],
                 node_value = of_nat (total_reviews m)\<rparr>"
    then have "node_parent n = []" "node_label n = ''Reviews''" by simp_all
    with caps(1,2) show ?thesis by metis
  next
    assume "\<exists>s\<in>{''positive'', ''negative'', ''neutral''}. n \<in> set (bucket_nodes m kws s)"
    then obtain s' where s': "s' \<in> {''positive'', ''negative'', ''neutral''}"
      "n \<in> set (bucket_nodes m kws s')" by blast
    have "s' \<noteq> s" using bucket_nodes_kinds(1) [OF s'(2)] assms(2) by blast
    note d = caps(3) [OF s'(1) this] capitalize_distinct(1) [OF s'(1)] caps(1)
    from bucket_nodes_kinds(2) [OF s'(2)] show ?thesis
    proof
      assume "node_parent n = ''Reviews'' \<and> node_label n = capitalize s'
           \<and> node_value n = of_nat (sentiment_count m s')"
      with d show ?thesis by metis
    next
      assume "node_parent n = capitalize s'"
      with d show ?thesis by metis
    qed
  qed
qed


text \<open>
  Claim C7. The root node comes first. Every later node has a parent label that
  is the label of an earlier node. No node under the root (a sentiment bucket
  node) has weight 0: for a label with count 0 neither the bucket node nor any
  node with that bucket as parent is in the list.
\<close>

theorem build_sunburst_well_formed:
  "build_sunburst m kws \<noteq> []
   \<and> hd (build_sunburst m kws)
       = \<lparr>node_label = ''Reviews'', node_parent = [], node_value = of_nat (total_reviews m)\<rparr>
   \<and> (\<forall>i<length (build_sunburst m kws). 0 < i \<longrightarrow>
         (\<exists>j<i. node_label (build_sunburst m kws ! j) = node_parent (build_sunburst m kws ! i)))
   \<and> (\<forall>n\<in>set (build_sunburst m kws). node_parent n = ''Reviews'' \<longrightarrow> node_value n \<noteq> 0)
   \<and> (\<forall>s\<in>{''positive'', ''negative'', ''neutral''}. sentiment_count m s = 0 \<longrightarrow>
         (\<forall>n\<in>set (build_sunburst m kws).
            node_parent n \<noteq> capitalize s
            \<and> \<not> (node_parent n = ''Reviews'' \<and> node_label n = capitalize s)))"
proof (intro conjI allI ballI impI)
  show "build_sunburst m kws \<noteq> []" by (simp add: build_sunburst_blocks)
  show "hd (build_sunburst m kws)
       = \<lparr>node_label = ''Reviews'', node_parent = [], node_value = of_nat (total_reviews m)\<rparr>"
    by (simp add: build_sunburst_blocks)
next
  fix i assume "i < length (build_sunburst m kws)" "0 < i"
  then show "\<exists>j<i. node_label (build_sunburst m kws ! j) = node_parent (build_sunburst m kws ! i)"
    by (rule build_sunburst_order)
next
  fix n assume "n \<in> set (build_sunburst m kws)" "node_parent n = ''Reviews''"
  then show "node_value n \<noteq> 0" by (rule build_sunburst_weight)
next
  fix s n
  assume a: "s \<in> {''positive'', ''negative'', ''neutral''}" "sentiment_count m s = 0"
    "n \<in> set (build_sunburst m kws)"
  from build_sunburst_omitted [OF a]
  show "node_parent n \<noteq> capitalize s" by (rule conjunct1)
  from build_sunburst_omitted [OF a]
  show "\<not> (node_parent n = ''Reviews'' \<and> node_label n = capitalize s)" by (rule conjunct2)
qed

lemma example_weights:
  "to_double (125 / 2) = 125 / 2" "py_round2 (125 / 2) = 125 / 2"
  "to_double 50 = 50" "py_round2 50 = 50"
  "to_double (25 / 2) = 25 / 2" "py_round2 (25 / 2) = 25 / 2"
  by code_simp+

theorem build_sunburst_well_formed_witness:
  "build_sunburst example_metrics example_keywords =
     [\<lparr>node_label = ''Reviews'', node_parent = [], node_value = 3\<rparr>,
      \<lparr>node_label = ''Positive'', node_parent = ''Reviews'', node_value = 2\<rparr>,
      \<lparr>node_label = ''great'', node_parent = ''Positive'', node_value = 125 / 2\<rparr>,
      \<lparr>node_label = ''Negative'', node_parent = ''Reviews'', node_value = 1\<rparr>,
      \<lparr>node_label = ''crash'', node_parent = ''Negative'', node_value = 50\<rparr>,
      \<lparr>node_label = ''slow'', node_parent = ''Negative'', node_value = 25 / 2\<rparr>]
   \<and> 4 < length (build_sunburst example_metrics example_keywords)
   \<and> (\<exists>j<4. node_label (build_sunburst example_metrics example_keywords ! j)
          = node_parent (build_sunburst example_metrics example_keywords ! 4))
   \<and> ''neutral'' \<in> {''positive'', ''negative'', ''neutral''}
   \<and> sentiment_count example_metrics ''neutral'' = 0
   \<and> node_parent (build_sunburst example_metrics example_keywords ! 4) \<noteq> capitalize ''neutral''"
proof -
  note wf = build_sunburst_well_formed [of example_metrics example_keywords]
  have ev: "build_sunburst example_metrics example_keywords =
     [\<lparr>node_label = ''Reviews'', node_parent = [], node_value = 3\<rparr>,
      \<lparr>node_label = ''Positive'', node_parent = ''Reviews'', node_value = 2\<rparr>,
      \<lparr>node_label = ''great'', node_parent = ''Positive'', node_value = 125 / 2\<rparr>,
      \<lparr>node_label = ''Negative'', node_parent = ''Reviews'', node_value = 1\<rparr>,
      \<lparr>node_label = ''crash'', node_parent = ''Negative'', node_value = 50\<rparr>,
      \<lparr>node_label = ''slow'', node_parent = ''Negative'', node_value = 25 / 2\<rparr>]"
    by (simp add: build_sunburst_blocks bucket_nodes_def sentiment_count_def example_metrics_def
        example_keywords_def dict_get_def capitalize_labels example_weights)
  have len: "4 < length (build_sunburst example_metrics example_keywords)"
    by (simp add: ev)
  have zero: "sentiment_count example_metrics ''neutral'' = 0"
    by (simp add: sentiment_count_def example_metrics_def)
  have mem: "''neutral'' \<in> {''positive'', ''negative'', ''neutral''}" by simp
  from wf have order: "\<forall>i<length (build_sunburst example_metrics example_keywords). 0 < i \<longrightarrow>
         (\<exists>j<i. node_label (build_sunburst example_metrics example_keywords ! j)
            = node_parent (build_sunburst example_metrics example_keywords ! i))"
    by (elim conjE)
  from wf have omit: "\<forall>s\<in>{''positive'', ''negative'', ''neutral''}.
        sentiment_count example_metrics s = 0 \<longrightarrow>
         (\<forall>n\<in>set (build_sunburst example_metrics example_keywords).
            node_parent n \<noteq> capitalize s
            \<and> \<not> (node_parent n = ''Reviews'' \<and> node_label n = capitalize s))"
    by (elim conjE)
  from order [rule_format, OF len]
  have 1: "\<exists>j<4. node_label (build_sunburst example_metrics example_keywords ! j)
          = node_parent (build_sunburst example_metrics example_keywords ! 4)"
    by simp
  have "build_sunburst example_metrics example_keywords ! 4
          \<in> set (build_sunburst example_metrics example_keywords)"
    using len by (intro nth_mem) simp
  from omit [rule_format, OF mem zero this]
  have 2: "node_parent (build_sunburst example_metrics example_keywords ! 4)
          \<noteq> capitalize ''neutral''"
    by (rule conjunct1)
  from ev len 1 mem zero 2 show ?thesis by (intro conjI)
qed

end
